theory Spec2Isabelle
  imports Main
begin

section \<open>The find-imports analyzer\<close>

text \<open>
  The analyzer (\<^verbatim>\<open>FindImportsSwcAnalyzer\<close>) walks a parser-produced syntax tree and
  collects one entry per module reference. The tree is a plain JavaScript object graph,
  so it is modelled as a JSON-like value; every property read of the source is a read
  of that value, and a read on \<^verbatim>\<open>undefined\<close> or \<^verbatim>\<open>null\<close> raises \<^verbatim>\<open>TypeError\<close>.
\<close>

subsection \<open>JavaScript values\<close>

datatype jsval =
    Undefined
  | Null
  | Bool bool
  | Num int
  | Str string
  | Arr "jsval list"
  | Obj "(string \<times> jsval) list"

datatype error = TypeError

text \<open>Sequencing of fallible steps: the first raise ends the computation.\<close>

definition ebind :: "error + 'a \<Rightarrow> ('a \<Rightarrow> error + 'b) \<Rightarrow> error + 'b" where
  "ebind m f = (case m of Inl e \<Rightarrow> Inl e | Inr x \<Rightarrow> f x)"

fun nullish :: "jsval \<Rightarrow> bool" where
  "nullish Undefined = True"
| "nullish Null = True"
| "nullish _ = False"

text \<open>JavaScript truthiness, as used by \<^verbatim>\<open>||\<close>, \<^verbatim>\<open>!\<close> and \<^verbatim>\<open>if\<close>.\<close>

fun truthy :: "jsval \<Rightarrow> bool" where
  "truthy Undefined = False"
| "truthy Null = False"
| "truthy (Bool b) = b"
| "truthy (Num n) = (n \<noteq> 0)"
| "truthy (Str s) = (s \<noteq> [])"
| "truthy (Arr xs) = True"
| "truthy (Obj kvs) = True"

text \<open>\<^verbatim>\<open>a || b\<close>\<close>

definition jor :: "jsval \<Rightarrow> jsval \<Rightarrow> jsval" where
  "jor a b = (if truthy a then a else b)"

text \<open>
  The own property \<open>k\<close> of a value that is not nullish. The source only reads the keys
  \<^verbatim>\<open>type\<close>, \<^verbatim>\<open>specifiers\<close>, \<^verbatim>\<open>source\<close>, \<^verbatim>\<open>value\<close>, \<^verbatim>\<open>name\<close>, \<^verbatim>\<open>imported\<close>, \<^verbatim>\<open>orig\<close>,
  \<^verbatim>\<open>local\<close>, \<^verbatim>\<open>exported\<close>, \<^verbatim>\<open>callee\<close>, \<^verbatim>\<open>arguments\<close> and \<^verbatim>\<open>expression\<close>; none of them is
  inherited by a string, number, boolean or array, so those read as \<^verbatim>\<open>undefined\<close>.
\<close>

fun field :: "jsval \<Rightarrow> string \<Rightarrow> jsval" where
  "field (Obj kvs) k = (case map_of kvs k of None \<Rightarrow> Undefined | Some v \<Rightarrow> v)"
| "field _ k = Undefined"

text \<open>\<^verbatim>\<open>v.k\<close>: raises on \<^verbatim>\<open>undefined\<close> and \<^verbatim>\<open>null\<close>.\<close>

definition member :: "jsval \<Rightarrow> string \<Rightarrow> error + jsval" where
  "member v k = (if nullish v then Inl TypeError else Inr (field v k))"

text \<open>\<^verbatim>\<open>v?.k\<close>: \<^verbatim>\<open>undefined\<close> on \<^verbatim>\<open>undefined\<close> and \<^verbatim>\<open>null\<close>.\<close>

definition optprop :: "jsval \<Rightarrow> string \<Rightarrow> jsval" where
  "optprop v k = (if nullish v then Undefined else field v k)"

text \<open>\<^verbatim>\<open>v[0]\<close>\<close>

fun index0 :: "jsval \<Rightarrow> error + jsval" where
  "index0 Undefined = Inl TypeError"
| "index0 Null = Inl TypeError"
| "index0 (Arr xs) = Inr (case xs of [] \<Rightarrow> Undefined | x # _ \<Rightarrow> x)"
| "index0 (Str s) = Inr (case s of [] \<Rightarrow> Undefined | c # _ \<Rightarrow> Str [c])"
| "index0 (Obj kvs) = Inr (field (Obj kvs) ''0'')"
| "index0 _ = Inr Undefined"

subsection \<open>Specifier tags\<close>

definition isLiteral :: "jsval \<Rightarrow> bool" where
  "isLiteral node \<longleftrightarrow>
     optprop node ''type'' = Str ''Literal'' \<or> optprop node ''type'' = Str ''StringLiteral''"

definition getSpecifierValue :: "jsval \<Rightarrow> error + jsval" where
  "getSpecifierValue s =
     (if nullish s then Inl TypeError
      else Inr
        (jor (optprop (field s ''imported'') ''value'')
        (jor (optprop (field s ''imported'') ''name'')
        (jor (optprop (field s ''orig'') ''value'')
        (jor (optprop (field s ''orig'') ''name'')
        (jor (optprop (field s ''local'') ''value'')
        (jor (optprop (field s ''local'') ''name'')
        (jor (optprop (field s ''exported'') ''value'')
             (optprop (field s ''exported'') ''name'')))))))))"

text \<open>The callback of \<^verbatim>\<open>.map\<close> in \<^verbatim>\<open>getImportOrReexportsSpecifiers\<close>.\<close>

definition specifierTag :: "jsval \<Rightarrow> error + jsval" where
  "specifierTag s =
     (if nullish s then Inl TypeError
      else if field s ''type'' = Str ''ImportDefaultSpecifier''
            \<or> field s ''type'' = Str ''ExportDefaultSpecifier''
            \<or> (field s ''type'' = Str ''ExportSpecifier''
                \<and> (optprop (field s ''exported'') ''value'' = Str ''default''
                     \<or> optprop (field s ''exported'') ''name'' = Str ''default''))
      then Inr (Str ''[default]'')
      else if field s ''type'' = Str ''ImportNamespaceSpecifier''
            \<or> field s ''type'' = Str ''ExportNamespaceSpecifier''
      then Inr (Str ''[*]'')
      else getSpecifierValue s)"

text \<open>\<^verbatim>\<open>xs.map(f)\<close> for a callback that may raise.\<close>

fun mapE :: "('a \<Rightarrow> error + 'b) \<Rightarrow> 'a list \<Rightarrow> error + 'b list" where
  "mapE f [] = Inr []"
| "mapE f (x # xs) = ebind (f x) (\<lambda>y. ebind (mapE f xs) (\<lambda>ys. Inr (y # ys)))"

text \<open>
  \<^verbatim>\<open>(node.specifiers || []).map(...)\<close>: a truthy \<^verbatim>\<open>specifiers\<close> that is not an array has
  no \<^verbatim>\<open>map\<close> method, and the call raises.
\<close>

definition getImportOrReexportsSpecifiers :: "jsval \<Rightarrow> error + jsval list" where
  "getImportOrReexportsSpecifiers node =
     ebind (member node ''specifiers'') (\<lambda>sp.
       case jor sp (Arr []) of
         Arr ss \<Rightarrow> mapE specifierTag ss
       | _ \<Rightarrow> Inl TypeError)"

subsection \<open>Entries and visitor callbacks\<close>

record entry =
  importSpecifiers :: "jsval list"
  source :: jsval
  assertionType :: "jsval option"

text \<open>
  \<^verbatim>\<open>if (assertionType) { entry.assertionType = assertionType; }\<close>: the field exists only
  for a truthy assertion type.
\<close>

definition withAssertion :: "jsval \<Rightarrow> jsval list \<Rightarrow> jsval \<Rightarrow> entry" where
  "withAssertion a specs src =
     \<lparr>importSpecifiers = specs, source = src,
      assertionType = (if truthy a then Some a else None)\<rparr>"

text \<open>
  Each callback receives the node and the accumulator \<^verbatim>\<open>transformedFile\<close> and returns the
  accumulator, with the entry pushed at its end if there is one. The helper
  \<^verbatim>\<open>getAssertionType\<close> (\<^verbatim>\<open>utils/get-assertion-type.js\<close>) is not part of the analyzer file;
  it is the parameter \<open>getAssertionType\<close>.
\<close>

definition ImportDeclaration ::
  "(jsval \<Rightarrow> jsval) \<Rightarrow> jsval \<Rightarrow> entry list \<Rightarrow> error + entry list" where
  "ImportDeclaration getAssertionType node transformedFile =
     ebind (getImportOrReexportsSpecifiers node) (\<lambda>specs.
     let importSpecifiers = (if specs = [] then [Str ''[file]''] else specs) in
     ebind (member node ''source'') (\<lambda>src.
     ebind (member src ''value'') (\<lambda>sourcev.
       Inr (transformedFile @
            [withAssertion (getAssertionType node) importSpecifiers sourcev]))))"

definition ExportNamedDeclaration ::
  "(jsval \<Rightarrow> jsval) \<Rightarrow> jsval \<Rightarrow> entry list \<Rightarrow> error + entry list" where
  "ExportNamedDeclaration getAssertionType node transformedFile =
     ebind (member node ''source'') (\<lambda>src.
     if \<not> truthy src then Inr transformedFile
     else
       ebind (getImportOrReexportsSpecifiers node) (\<lambda>importSpecifiers.
       ebind (member src ''value'') (\<lambda>sourcev.
         Inr (transformedFile @
              [withAssertion (getAssertionType node) importSpecifiers sourcev]))))"

definition ExportAllDeclaration ::
  "(jsval \<Rightarrow> jsval) \<Rightarrow> jsval \<Rightarrow> entry list \<Rightarrow> error + entry list" where
  "ExportAllDeclaration getAssertionType node transformedFile =
     ebind (member node ''source'') (\<lambda>src.
     if \<not> truthy src then Inr transformedFile
     else
       ebind (member src ''value'') (\<lambda>sourcev.
         Inr (transformedFile @
              [withAssertion (getAssertionType node) [Str ''[*]''] sourcev])))"

definition CallExpression :: "jsval \<Rightarrow> entry list \<Rightarrow> error + entry list" where
  "CallExpression node transformedFile =
     ebind (member node ''callee'') (\<lambda>callee.
     if optprop callee ''type'' \<noteq> Str ''Import'' then Inr transformedFile
     else
       ebind (index0 (field node ''arguments'')) (\<lambda>arg0.
       ebind (member arg0 ''expression'') (\<lambda>dynamicImportExpression.
         Inr (transformedFile @
              [\<lparr>importSpecifiers = [Str ''[default]''],
                source = (if isLiteral dynamicImportExpression
                          then field dynamicImportExpression ''value''
                          else Str ''[variable]''),
                assertionType = None\<rparr>]))))"

definition ExpressionStatement :: "jsval \<Rightarrow> entry list \<Rightarrow> error + entry list" where
  "ExpressionStatement node transformedFile =
     ebind (member node ''expression'') (\<lambda>dynamicImportExpression.
     ebind (member dynamicImportExpression ''type'') (\<lambda>t.
     if t \<noteq> Str ''ImportExpression'' then Inr transformedFile
     else
       Inr (transformedFile @
            [\<lparr>importSpecifiers = [Str ''[default]''],
              source = (if isLiteral (field dynamicImportExpression ''source'')
                        then field (field dynamicImportExpression ''source'') ''value''
                        else Str ''[variable]''),
              assertionType = None\<rparr>])))"

text \<open>
  The visitor table passed to the walker: the callback stored under the node's
  \<^verbatim>\<open>type\<close>, and nothing for every other type.
\<close>

definition visitor ::
  "(jsval \<Rightarrow> jsval) \<Rightarrow> jsval \<Rightarrow> entry list \<Rightarrow> error + entry list" where
  "visitor getAssertionType node transformedFile =
     (if field node ''type'' = Str ''ImportDeclaration''
        then ImportDeclaration getAssertionType node transformedFile
      else if field node ''type'' = Str ''ExportNamedDeclaration''
        then ExportNamedDeclaration getAssertionType node transformedFile
      else if field node ''type'' = Str ''ExportAllDeclaration''
        then ExportAllDeclaration getAssertionType node transformedFile
      else if field node ''type'' = Str ''CallExpression''
        then CallExpression node transformedFile
      else if field node ''type'' = Str ''ExpressionStatement''
        then ExpressionStatement node transformedFile
      else Inr transformedFile)"

subsection \<open>The walk\<close>

text \<open>
  Modelled from the spec: the order in which \<^verbatim>\<open>oxcTraverse\<close> (\<^verbatim>\<open>utils/oxc-traverse.js\<close>,
  called by \<^verbatim>\<open>findImportsPerAstFile\<close>, its code not available) reaches the nodes. The
  specification describes one depth-first, document-order walk of the tree. \<open>nodes\<close>
  lists the objects of a tree in that order: an object before the objects below it,
  properties and array elements from first to last.
\<close>

fun nodes :: "jsval \<Rightarrow> jsval list" where
  "nodes (Obj kvs) = Obj kvs # concat (map (\<lambda>kv. nodes (snd kv)) kvs)"
| "nodes (Arr xs) = concat (map nodes xs)"
| "nodes v = []"

text \<open>
  Modelled from the spec: how \<^verbatim>\<open>oxcTraverse\<close> invokes the callbacks. The specification has
  the walk call the visitor callback of each node it reaches, the callbacks appending to
  one ordered output sequence: they run one after the other on the same accumulator.
  It also has a single malformed node skipped rather than the whole file aborted: a
  callback that raises contributes no entry and the walk goes on with the next node.
  Every callback pushes as its last step, so the accumulator is then as it was.
\<close>

fun visitAll ::
  "(jsval \<Rightarrow> entry list \<Rightarrow> error + entry list) \<Rightarrow> jsval list \<Rightarrow> entry list
     \<Rightarrow> error + entry list" where
  "visitAll v [] transformedFile = Inr transformedFile"
| "visitAll v (n # ns) transformedFile =
     (case v n transformedFile of
        Inl e \<Rightarrow> visitAll v ns transformedFile
      | Inr pushed \<Rightarrow> visitAll v ns pushed)"

text \<open>
  Modelled from the spec: \<^verbatim>\<open>oxcTraverse(oxcAst, visitor)\<close>, the walk of the tree with the
  visitor table, as the two definitions above make it.
\<close>

definition oxcTraverse ::
  "jsval \<Rightarrow> (jsval \<Rightarrow> entry list \<Rightarrow> error + entry list) \<Rightarrow> entry list
     \<Rightarrow> error + entry list" where
  "oxcTraverse oxcAst v transformedFile = visitAll v (nodes oxcAst) transformedFile"

definition findImportsPerAstFile :: "(jsval \<Rightarrow> jsval) \<Rightarrow> jsval \<Rightarrow> error + entry list" where
  "findImportsPerAstFile getAssertionType oxcAst =
     oxcTraverse oxcAst (visitor getAssertionType) []"

subsection \<open>Post-processing\<close>

record analyzerCfg =
  targetProjectPath :: "string option"
  keepInternalSources :: bool

record fileContext =
  relativePath :: string
  analyzerCfg :: analyzerCfg

text \<open>
  Modelled from the spec: \<^verbatim>\<open>isRelativeSourcePath\<close> (\<^verbatim>\<open>utils/relative-source-path.js\<close>) is
  not available. The specification calls a module reference relative (internal) when it
  begins with \<^verbatim>\<open>./\<close> or \<^verbatim>\<open>../\<close>.
\<close>

fun isRelativeSourcePath :: "jsval \<Rightarrow> bool" where
  "isRelativeSourcePath (Str s) = (take 2 s = ''./'' \<or> take 3 s = ''../'')"
| "isRelativeSourcePath v = False"

text \<open>
  Modelled from the spec: \<^verbatim>\<open>normalizeSourcePaths\<close> (\<^verbatim>\<open>helpers/normalize-source-paths.js\<close>)
  is not available. The specification describes it as rewriting the \<^verbatim>\<open>source\<close> of each
  entry of the sequence, given the file's own path and the project root. How one source
  is rewritten depends on the files on disk; it is the parameter \<open>rewrite\<close>.
\<close>

definition normalizeSourcePaths ::
  "(string \<Rightarrow> string option \<Rightarrow> jsval \<Rightarrow> jsval) \<Rightarrow> entry list \<Rightarrow> string \<Rightarrow> string option
     \<Rightarrow> entry list" where
  "normalizeSourcePaths rewrite queryOutput relPath rootPath =
     map (\<lambda>e. e\<lparr>source := rewrite relPath rootPath (source e)\<rparr>) queryOutput"

definition analyzeFile ::
  "(jsval \<Rightarrow> jsval) \<Rightarrow> (string \<Rightarrow> string option \<Rightarrow> jsval \<Rightarrow> jsval) \<Rightarrow> jsval \<Rightarrow> fileContext
     \<Rightarrow> error + entry list" where
  "analyzeFile getAssertionType rewrite oxcAst ctx =
     ebind (findImportsPerAstFile getAssertionType oxcAst) (\<lambda>transformedFile.
     let normalized = normalizeSourcePaths rewrite transformedFile (relativePath ctx)
                        (targetProjectPath (analyzerCfg ctx)) in
     Inr (if \<not> keepInternalSources (analyzerCfg ctx)
          then filter (\<lambda>e. \<not> isRelativeSourcePath (source e)) normalized
          else normalized))"

subsection \<open>The tag rule as the specification words it\<close>


text \<open>The specification's \<^emph>\<open>first non-undefined accessor result\<close>.\<close>

fun firstDefined :: "jsval list \<Rightarrow> jsval" where
  "firstDefined [] = Undefined"
| "firstDefined (v # vs) = (if v \<noteq> Undefined then v else firstDefined vs)"




section \<open>Properties\<close>

subsection \<open>Sequencing and the accumulator\<close>

lemma ebind_Inl [simp]: "ebind (Inl e) f = Inl e"
  by (simp add: ebind_def)

lemma ebind_Inr [simp]: "ebind (Inr x) f = f x"
  by (simp add: ebind_def)


lemma ebind_eq_Inr: "ebind m f = Inr y \<longleftrightarrow> (\<exists>x. m = Inr x \<and> f x = Inr y)"
  by (cases m) simp_all

lemma CallExpression_acc:
  "CallExpression n tf = ebind (CallExpression n []) (\<lambda>es. Inr (tf @ es))"
  by (simp add: CallExpression_def ebind_def split: sum.splits)

lemma ExpressionStatement_acc:
  "ExpressionStatement n tf = ebind (ExpressionStatement n []) (\<lambda>es. Inr (tf @ es))"
  by (simp add: ExpressionStatement_def ebind_def split: sum.splits)

lemma ImportDeclaration_acc:
  "ImportDeclaration gat n tf = ebind (ImportDeclaration gat n []) (\<lambda>es. Inr (tf @ es))"
  by (simp add: ImportDeclaration_def ebind_def Let_def split: sum.splits)

lemma ExportNamedDeclaration_acc:
  "ExportNamedDeclaration gat n tf = ebind (ExportNamedDeclaration gat n []) (\<lambda>es. Inr (tf @ es))"
  by (simp add: ExportNamedDeclaration_def ebind_def split: sum.splits)

lemma ExportAllDeclaration_acc:
  "ExportAllDeclaration gat n tf = ebind (ExportAllDeclaration gat n []) (\<lambda>es. Inr (tf @ es))"
  by (simp add: ExportAllDeclaration_def ebind_def split: sum.splits)

lemma visitor_acc:
  "visitor gat n tf = ebind (visitor gat n []) (\<lambda>es. Inr (tf @ es))"
  unfolding visitor_def
  using ImportDeclaration_acc [of gat n tf] ExportNamedDeclaration_acc [of gat n tf]
    ExportAllDeclaration_acc [of gat n tf] CallExpression_acc [of n tf]
    ExpressionStatement_acc [of n tf]
  by simp

lemma visitAll_acc:
  "visitAll (visitor gat) ns tf = ebind (visitAll (visitor gat) ns []) (\<lambda>es. Inr (tf @ es))"
proof (induction ns arbitrary: tf)
  case Nil
  show ?case by simp
next
  case (Cons n ns)
  show ?case
  proof (cases "visitor gat n []")
    case (Inl e)
    then have "visitor gat n tf = Inl e" using visitor_acc [of gat n tf] by simp
    with Inl Cons.IH [of tf] show ?thesis by simp
  next
    case (Inr es)
    then have "visitor gat n tf = Inr (tf @ es)" using visitor_acc [of gat n tf] by simp
    moreover have "visitAll (visitor gat) ns (tf @ es)
        = ebind (visitAll (visitor gat) ns []) (\<lambda>es'. Inr ((tf @ es) @ es'))"
      by (rule Cons.IH)
    moreover have "visitAll (visitor gat) ns es
        = ebind (visitAll (visitor gat) ns []) (\<lambda>es'. Inr (es @ es'))"
      by (rule Cons.IH)
    ultimately show ?thesis using Inr
      by (cases "visitAll (visitor gat) ns []") simp_all
  qed
qed


lemma visitAll_append:
  "visitAll v (xs @ ys) tf = ebind (visitAll v xs tf) (visitAll v ys)"
  by (induction xs arbitrary: tf) (simp_all split: sum.splits)

lemma visitAll_concat:
  "visitAll (visitor gat) (concat xss) [] = Inr es \<longleftrightarrow>
     (\<exists>ess. list_all2 (\<lambda>xs r. visitAll (visitor gat) xs [] = Inr r) xss ess \<and> es = concat ess)"
proof (induction xss arbitrary: es)
  case Nil
  show ?case by auto
next
  case (Cons xs xss)
  show ?case
  proof
    assume a: "visitAll (visitor gat) (concat (xs # xss)) [] = Inr es"
    then obtain r where r: "visitAll (visitor gat) xs [] = Inr r"
      and rest: "visitAll (visitor gat) (concat xss) r = Inr es"
      by (auto simp: visitAll_append ebind_eq_Inr)
    from rest obtain es' where es': "visitAll (visitor gat) (concat xss) [] = Inr es'"
      and es: "es = r @ es'"
      using visitAll_acc [of gat "concat xss" r] by (auto simp: ebind_eq_Inr)
    from es' Cons.IH obtain ess where
      "list_all2 (\<lambda>xs r. visitAll (visitor gat) xs [] = Inr r) xss ess" "es' = concat ess"
      by blast
    with r es have "list_all2 (\<lambda>xs r. visitAll (visitor gat) xs [] = Inr r) (xs # xss) (r # ess)
        \<and> es = concat (r # ess)" by simp
    then show "\<exists>ess. list_all2 (\<lambda>xs r. visitAll (visitor gat) xs [] = Inr r) (xs # xss) ess
        \<and> es = concat ess" by blast
  next
    assume "\<exists>ess. list_all2 (\<lambda>xs r. visitAll (visitor gat) xs [] = Inr r) (xs # xss) ess
        \<and> es = concat ess"
    then obtain r ess where r: "visitAll (visitor gat) xs [] = Inr r"
      and ess: "list_all2 (\<lambda>xs r. visitAll (visitor gat) xs [] = Inr r) xss ess"
      and es: "es = r @ concat ess"
      by (auto simp: list_all2_Cons1)
    from ess Cons.IH have "visitAll (visitor gat) (concat xss) [] = Inr (concat ess)" by blast
    then have "visitAll (visitor gat) (concat xss) r = Inr (r @ concat ess)"
      using visitAll_acc [of gat "concat xss" r] by simp
    with r es show "visitAll (visitor gat) (concat (xs # xss)) [] = Inr es"
      by (simp add: visitAll_append)
  qed
qed

subsection \<open>Specifier tags\<close>




text \<open>
  Where the first non-undefined read of the chain is truthy, it is also the first
  truthy read: only a read that is defined and falsy separates the two.
\<close>

lemma firstDefined_truthy:
  "truthy (firstDefined vs) \<Longrightarrow> find truthy vs = Some (firstDefined vs)"
  by (induction vs) auto




subsection \<open>Specifier lists of declarations\<close>

lemma mapE_Nil_iff: "mapE f xs = Inr [] \<longleftrightarrow> xs = []"
  by (cases xs) (auto simp: ebind_def split: sum.splits)

text \<open>An import declaration never pushes an entry with an empty specifier list.\<close>

lemma ImportDeclaration_nonempty:
  "ImportDeclaration gat node tf = Inr tf' \<Longrightarrow>
     \<exists>e. tf' = tf @ [e] \<and> importSpecifiers e \<noteq> []"
  by (auto simp: ImportDeclaration_def ebind_eq_Inr Let_def withAssertion_def)

text \<open>A bare \<^verbatim>\<open>import './x.js'\<close> yields the single tag \<^verbatim>\<open>[file]\<close>.\<close>

lemma ImportDeclaration_bare:
  "field node ''specifiers'' = Arr [] \<Longrightarrow> field node ''source'' = src \<Longrightarrow> \<not> nullish src \<Longrightarrow>
   ImportDeclaration gat node tf
     = Inr (tf @ [withAssertion (gat node) [Str ''[file]''] (field src ''value'')])"
  by (cases node)
    (auto simp: ImportDeclaration_def getImportOrReexportsSpecifiers_def member_def jor_def)

text \<open>
  C1. Every declaration entry (import, named re-export, export-all) should have a
  non-empty \<^verbatim>\<open>importSpecifiers\<close>. The import callback pushes \<^verbatim>\<open>[file]\<close> when the specifier
  list is empty (\<open>ImportDeclaration_nonempty\<close>, \<open>ImportDeclaration_bare\<close>), but the callback
  for named re-exports has no such step: for \<^verbatim>\<open>export {} from 'pkg'\<close> the analyzer returns
  an entry whose \<^verbatim>\<open>importSpecifiers\<close> is the empty sequence.
\<close>

theorem named_reexport_without_specifiers:
  "analyzeFile (\<lambda>node. Undefined) (\<lambda>relPath rootPath src. src)
     (Obj [(''type'', Str ''Program''),
           (''body'', Arr [
              Obj [(''type'', Str ''ExportNamedDeclaration''),
                   (''specifiers'', Arr []),
                   (''source'', Obj [(''type'', Str ''Literal''), (''value'', Str ''pkg'')])]])])
     \<lparr>relativePath = ''./src/index.js'',
      analyzerCfg = \<lparr>targetProjectPath = None, keepInternalSources = False\<rparr>\<rparr>
   = Inr [\<lparr>importSpecifiers = [], source = Str ''pkg'', assertionType = None\<rparr>]"
  by code_simp

subsection \<open>Exports without a source\<close>

text \<open>
  C6. A named-export or export-all declaration node that has no source (no \<^verbatim>\<open>from\<close>
  clause, as in \<^verbatim>\<open>export const x = 1;\<close>) yields no entry: its callback returns the
  accumulator as it received it.
\<close>

theorem export_without_source_emits_nothing:
  assumes "field node ''type'' = Str ''ExportNamedDeclaration''
           \<or> field node ''type'' = Str ''ExportAllDeclaration''"
    and "field node ''source'' = Null \<or> field node ''source'' = Undefined"
  shows "visitor gat node transformedFile = Inr transformedFile"
  using assms
  by (cases node)
    (auto simp: visitor_def ExportNamedDeclaration_def ExportAllDeclaration_def member_def)

theorem export_without_source_emits_nothing_witness:
  "visitor (\<lambda>node. Str ''json'')
     (Obj [(''type'', Str ''ExportNamedDeclaration''),
           (''declaration'',
            Obj [(''type'', Str ''VariableDeclaration''), (''kind'', Str ''const'')]),
           (''specifiers'', Arr []),
           (''source'', Null)]) [] = Inr []
   \<and> visitor (\<lambda>node. Str ''json'')
     (Obj [(''type'', Str ''ExportAllDeclaration''), (''exported'', Null)]) [] = Inr []"
  using export_without_source_emits_nothing
      [of "Obj [(''type'', Str ''ExportNamedDeclaration''),
           (''declaration'',
            Obj [(''type'', Str ''VariableDeclaration''), (''kind'', Str ''const'')]),
           (''specifiers'', Arr []),
           (''source'', Null)]" "\<lambda>node. Str ''json''" "[]"]
    export_without_source_emits_nothing
      [of "Obj [(''type'', Str ''ExportAllDeclaration''), (''exported'', Null)]"
          "\<lambda>node. Str ''json''" "[]"]
  by simp

subsection \<open>Imports and re-exports share one entry shape\<close>

text \<open>
  C7. For a named specifier \<open>x\<close> and a source \<open>s\<close>, the entry for the re-export
  \<^verbatim>\<open>export { x } from s\<close> is the entry for the import \<^verbatim>\<open>import { x } from s\<close>: the same
  \<^verbatim>\<open>importSpecifiers\<close>, the same \<^verbatim>\<open>source\<close>, and (an entry having these fields and an
  optional \<^verbatim>\<open>assertionType\<close> only) nothing that records which of the two it was. The two
  nodes are written in the shape the parser gives them; \<open>x\<close> is a binding name that both
  declarations accept, so it is not empty and not the reserved word \<^verbatim>\<open>default\<close>, and the two
  declarations carry the same attribute clause, if any.
\<close>

theorem reexport_entry_equals_import_entry:
  assumes "x \<noteq> ''''" and "x \<noteq> ''default''"
    and "importNode = Obj [(''type'', Str ''ImportDeclaration''),
           (''specifiers'', Arr [Obj [(''type'', Str ''ImportSpecifier''),
              (''imported'', Obj [(''type'', Str ''Identifier''), (''name'', Str x)]),
              (''local'', Obj [(''type'', Str ''Identifier''), (''name'', Str x)])]]),
           (''source'', Obj [(''type'', Str ''Literal''), (''value'', Str s)])]"
    and "exportNode = Obj [(''type'', Str ''ExportNamedDeclaration''),
           (''specifiers'', Arr [Obj [(''type'', Str ''ExportSpecifier''),
              (''local'', Obj [(''type'', Str ''Identifier''), (''name'', Str x)]),
              (''exported'', Obj [(''type'', Str ''Identifier''), (''name'', Str x)])]]),
           (''source'', Obj [(''type'', Str ''Literal''), (''value'', Str s)])]"
    and "gat importNode = gat exportNode"
  shows "visitor gat importNode transformedFile = visitor gat exportNode transformedFile
       \<and> visitor gat exportNode transformedFile
           = Inr (transformedFile @
                  [\<lparr>importSpecifiers = [Str x], source = Str s,
                    assertionType = (if truthy (gat exportNode) then Some (gat exportNode)
                                     else None)\<rparr>])"
  using assms
  by (simp add: visitor_def ImportDeclaration_def ExportNamedDeclaration_def
      getImportOrReexportsSpecifiers_def specifierTag_def getSpecifierValue_def
      member_def optprop_def jor_def withAssertion_def)

theorem reexport_entry_equals_import_entry_witness:
  "visitor (\<lambda>node. Undefined)
     (Obj [(''type'', Str ''ImportDeclaration''),
           (''specifiers'', Arr [Obj [(''type'', Str ''ImportSpecifier''),
              (''imported'', Obj [(''type'', Str ''Identifier''), (''name'', Str ''x'')]),
              (''local'', Obj [(''type'', Str ''Identifier''), (''name'', Str ''x'')])]]),
           (''source'', Obj [(''type'', Str ''Literal''), (''value'', Str ''./a.js'')])]) []
   = visitor (\<lambda>node. Undefined)
     (Obj [(''type'', Str ''ExportNamedDeclaration''),
           (''specifiers'', Arr [Obj [(''type'', Str ''ExportSpecifier''),
              (''local'', Obj [(''type'', Str ''Identifier''), (''name'', Str ''x'')]),
              (''exported'', Obj [(''type'', Str ''Identifier''), (''name'', Str ''x'')])]]),
           (''source'', Obj [(''type'', Str ''Literal''), (''value'', Str ''./a.js'')])]) []
   \<and> visitor (\<lambda>node. Undefined)
     (Obj [(''type'', Str ''ExportNamedDeclaration''),
           (''specifiers'', Arr [Obj [(''type'', Str ''ExportSpecifier''),
              (''local'', Obj [(''type'', Str ''Identifier''), (''name'', Str ''x'')]),
              (''exported'', Obj [(''type'', Str ''Identifier''), (''name'', Str ''x'')])]]),
           (''source'', Obj [(''type'', Str ''Literal''), (''value'', Str ''./a.js'')])]) []
   = Inr [\<lparr>importSpecifiers = [Str ''x''], source = Str ''./a.js'', assertionType = None\<rparr>]"
  using reexport_entry_equals_import_entry [of "''x''" _ "''./a.js''" _ "\<lambda>node. Undefined" "[]",
      OF _ _ refl refl]
  by simp

subsection \<open>Dynamic imports\<close>

text \<open>
  C3. A dynamic import that the analyzer recognises is a call expression whose callee
  is the synthetic \<^verbatim>\<open>Import\<close> node, with \<open>d\<close> the expression of its first argument, or
  an expression statement whose expression is an \<^verbatim>\<open>ImportExpression\<close> node, with \<open>d\<close> its
  source. In both forms exactly one entry is pushed, with \<^verbatim>\<open>importSpecifiers\<close> equal to
  \<^verbatim>\<open>['[default]']\<close>; its source is the value of \<open>d\<close> when \<open>d\<close> is a literal, and the sentinel
  \<^verbatim>\<open>[variable]\<close> otherwise.
\<close>

theorem dynamic_import_entry:
  assumes "(field node ''type'' = Str ''CallExpression''
            \<and> optprop (field node ''callee'') ''type'' = Str ''Import''
            \<and> (\<exists>arg rest. field node ''arguments'' = Arr (arg # rest) \<and> \<not> nullish arg
                  \<and> field arg ''expression'' = d))
         \<or> (field node ''type'' = Str ''ExpressionStatement''
            \<and> field (field node ''expression'') ''type'' = Str ''ImportExpression''
            \<and> field (field node ''expression'') ''source'' = d)"
  shows "visitor gat node transformedFile =
           Inr (transformedFile @
                [\<lparr>importSpecifiers = [Str ''[default]''],
                  source = (if isLiteral d then field d ''value'' else Str ''[variable]''),
                  assertionType = None\<rparr>])"
  using assms
  by (cases node; cases "field node ''expression''")
     (auto simp: visitor_def CallExpression_def ExpressionStatement_def member_def)

theorem dynamic_import_entry_witness:
  "visitor (\<lambda>node. Undefined)
     (Obj [(''type'', Str ''CallExpression''),
           (''callee'', Obj [(''type'', Str ''Import'')]),
           (''arguments'', Arr [Obj [(''spread'', Null),
              (''expression'',
               Obj [(''type'', Str ''StringLiteral''), (''value'', Str ''./b.js'')])]])])
     []
   = Inr [\<lparr>importSpecifiers = [Str ''[default]''], source = Str ''./b.js'',
           assertionType = None\<rparr>]
   \<and> visitor (\<lambda>node. Undefined)
     (Obj [(''type'', Str ''ExpressionStatement''),
           (''expression'', Obj [(''type'', Str ''ImportExpression''),
              (''source'', Obj [(''type'', Str ''Identifier''), (''name'', Str ''path'')])])])
     []
   = Inr [\<lparr>importSpecifiers = [Str ''[default]''], source = Str ''[variable]'',
           assertionType = None\<rparr>]"
  using dynamic_import_entry
      [of "Obj [(''type'', Str ''CallExpression''),
           (''callee'', Obj [(''type'', Str ''Import'')]),
           (''arguments'', Arr [Obj [(''spread'', Null),
              (''expression'',
               Obj [(''type'', Str ''StringLiteral''), (''value'', Str ''./b.js'')])]])]"
          "Obj [(''type'', Str ''StringLiteral''), (''value'', Str ''./b.js'')]"
          "\<lambda>node. Undefined" "[]"]
    dynamic_import_entry
      [of "Obj [(''type'', Str ''ExpressionStatement''),
           (''expression'', Obj [(''type'', Str ''ImportExpression''),
              (''source'', Obj [(''type'', Str ''Identifier''), (''name'', Str ''path'')])])]"
          "Obj [(''type'', Str ''Identifier''), (''name'', Str ''path'')]"
          "\<lambda>node. Undefined" "[]"]
  by (simp add: optprop_def isLiteral_def)

lemma handler_entries_None:
  "CallExpression node tf = Inr tf' \<Longrightarrow>
     \<exists>es. tf' = tf @ es \<and> list_all (\<lambda>e. assertionType e = None) es"
  "ExpressionStatement node tf = Inr tf' \<Longrightarrow>
     \<exists>es. tf' = tf @ es \<and> list_all (\<lambda>e. assertionType e = None) es"
  by (auto simp: CallExpression_def ExpressionStatement_def ebind_eq_Inr split: if_splits)

text \<open>
  C9. The entry of a dynamic import, call-based or expression-based, never carries an
  \<^verbatim>\<open>assertionType\<close>, whatever attribute clause the node has (whatever \<open>getAssertionType\<close>
  would return for it): every entry pushed for a node that is not an import declaration,
  a named re-export or an export-all declaration is without the field. Only those three
  can carry it.
\<close>

theorem dynamic_import_has_no_assertionType:
  assumes "visitor gat node transformedFile = Inr result"
    and "field node ''type'' \<noteq> Str ''ImportDeclaration''"
    and "field node ''type'' \<noteq> Str ''ExportNamedDeclaration''"
    and "field node ''type'' \<noteq> Str ''ExportAllDeclaration''"
  shows "\<exists>pushed. result = transformedFile @ pushed
           \<and> list_all (\<lambda>e. assertionType e = None) pushed"
  using assms handler_entries_None [of node transformedFile result]
  by (auto simp: visitor_def split: if_splits)

theorem dynamic_import_has_no_assertionType_witness:
  "visitor (\<lambda>node. Str ''json'')
     (Obj [(''type'', Str ''ExpressionStatement''),
           (''expression'', Obj [(''type'', Str ''ImportExpression''),
              (''source'', Obj [(''type'', Str ''Literal''), (''value'', Str ''./data.json'')]),
              (''options'', Obj [(''type'', Str ''ObjectExpression'')])])])
     []
   = Inr [\<lparr>importSpecifiers = [Str ''[default]''], source = Str ''./data.json'',
           assertionType = None\<rparr>]
   \<and> (\<exists>pushed.
        [\<lparr>importSpecifiers = [Str ''[default]''], source = Str ''./data.json'',
          assertionType = None\<rparr>] = [] @ pushed
        \<and> list_all (\<lambda>e. assertionType e = None) pushed)
   \<and> visitor (\<lambda>node. Str ''json'')
     (Obj [(''type'', Str ''ImportDeclaration''),
           (''specifiers'', Arr []),
           (''source'', Obj [(''type'', Str ''Literal''), (''value'', Str ''./data.json'')])])
     []
   = Inr [\<lparr>importSpecifiers = [Str ''[file]''], source = Str ''./data.json'',
           assertionType = Some (Str ''json'')\<rparr>]"
proof -
  have dyn: "visitor (\<lambda>node. Str ''json'')
     (Obj [(''type'', Str ''ExpressionStatement''),
           (''expression'', Obj [(''type'', Str ''ImportExpression''),
              (''source'', Obj [(''type'', Str ''Literal''), (''value'', Str ''./data.json'')]),
              (''options'', Obj [(''type'', Str ''ObjectExpression'')])])])
     []
   = Inr [\<lparr>importSpecifiers = [Str ''[default]''], source = Str ''./data.json'',
           assertionType = None\<rparr>]"
    by code_simp
  have static: "visitor (\<lambda>node. Str ''json'')
     (Obj [(''type'', Str ''ImportDeclaration''),
           (''specifiers'', Arr []),
           (''source'', Obj [(''type'', Str ''Literal''), (''value'', Str ''./data.json'')])])
     []
   = Inr [\<lparr>importSpecifiers = [Str ''[file]''], source = Str ''./data.json'',
           assertionType = Some (Str ''json'')\<rparr>]"
    by code_simp
  from dynamic_import_has_no_assertionType [OF dyn] dyn static show ?thesis
    by simp
qed

lemma visitAll_unchanged:
  "(\<And>n tf. n \<in> set ns \<Longrightarrow> v n tf = Inr tf) \<Longrightarrow> visitAll v ns tf = Inr tf"
  by (induction ns) simp_all

lemma visitor_no_reference:
  assumes "field n ''type'' \<noteq> Str ''ImportDeclaration''"
    and "field n ''type'' \<noteq> Str ''ExportNamedDeclaration''"
    and "field n ''type'' \<noteq> Str ''ExportAllDeclaration''"
    and "optprop (field n ''callee'') ''type'' \<noteq> Str ''Import''"
    and "field n ''type'' \<noteq> Str ''ExpressionStatement''
         \<or> (\<not> nullish (field n ''expression'')
             \<and> field (field n ''expression'') ''type'' \<noteq> Str ''ImportExpression'')"
  shows "visitor gat n tf = Inr tf"
  using assms
  by (cases n) (auto simp: visitor_def CallExpression_def ExpressionStatement_def member_def)

text \<open>
  A tree without static declarations, without a call whose callee is \<^verbatim>\<open>Import\<close> and without
  an expression statement that holds an \<^verbatim>\<open>ImportExpression\<close> yields no entry, wherever
  else it has \<^verbatim>\<open>ImportExpression\<close> nodes.
\<close>

lemma no_reference_nodes_no_entries:
  assumes "list_all (\<lambda>n.
      field n ''type'' \<noteq> Str ''ImportDeclaration''
      \<and> field n ''type'' \<noteq> Str ''ExportNamedDeclaration''
      \<and> field n ''type'' \<noteq> Str ''ExportAllDeclaration''
      \<and> optprop (field n ''callee'') ''type'' \<noteq> Str ''Import''
      \<and> (field n ''type'' \<noteq> Str ''ExpressionStatement''
          \<or> (\<not> nullish (field n ''expression'')
              \<and> field (field n ''expression'') ''type'' \<noteq> Str ''ImportExpression'')))
    (nodes oxcAst)"
  shows "analyzeFile gat rewrite oxcAst ctx = Inr []"
proof -
  have "visitAll (visitor gat) (nodes oxcAst) [] = Inr []"
  proof (rule visitAll_unchanged)
    fix n tf
    assume "n \<in> set (nodes oxcAst)"
    with assms show "visitor gat n tf = Inr tf"
      by (intro visitor_no_reference) (simp_all add: list_all_iff)
  qed
  then show ?thesis
    by (simp add: analyzeFile_def findImportsPerAstFile_def oxcTraverse_def
        normalizeSourcePaths_def)
qed

lemma visitAll_filter:
  "(\<And>n tf. n \<in> set ns \<Longrightarrow> \<not> P n \<Longrightarrow> v n tf = Inr tf \<or> v n tf = Inl TypeError) \<Longrightarrow>
     visitAll v (filter P ns) tf = visitAll v ns tf"
proof (induction ns arbitrary: tf)
  case Nil
  show ?case by simp
next
  case (Cons n ns)
  have rest: "visitAll v (filter P ns) tf' = visitAll v ns tf'" for tf'
    using Cons.prems by (intro Cons.IH) simp_all
  show ?case
  proof (cases "P n")
    case True
    then show ?thesis by (simp add: rest split: sum.splits)
  next
    case False
    with Cons.prems have "v n tf = Inr tf \<or> v n tf = Inl TypeError" by simp
    with False show ?thesis by (auto simp: rest)
  qed
qed

lemma visitor_skips:
  assumes "\<not> (field n ''type'' = Str ''ImportDeclaration''
           \<or> field n ''type'' = Str ''ExportNamedDeclaration''
           \<or> field n ''type'' = Str ''ExportAllDeclaration''
           \<or> (field n ''type'' = Str ''CallExpression''
               \<and> optprop (field n ''callee'') ''type'' = Str ''Import'')
           \<or> (field n ''type'' = Str ''ExpressionStatement''
               \<and> (nullish (field n ''expression'')
                    \<or> field (field n ''expression'') ''type'' = Str ''ImportExpression'')))"
  shows "visitor gat n tf = Inr tf"
  using assms
  by (cases n) (auto simp: visitor_def CallExpression_def ExpressionStatement_def member_def)

text \<open>
  C10. An \<^verbatim>\<open>ImportExpression\<close> node has no callback of its own: it yields an entry only
  through the callback of the expression statement whose immediate expression it is.
  For every tree, the result is that of visiting only the static declarations, the calls
  whose callee is the synthetic \<^verbatim>\<open>Import\<close> node (none in the oxc dialect) and the
  expression statements whose expression is an \<^verbatim>\<open>ImportExpression\<close> (or is missing); every
  other node leaves the result as it is. So a dynamic import nested in any other
  position (the initializer of a variable declaration, an \<^verbatim>\<open>await\<close> operand, a call
  argument) yields no entry at all, as the three nested imports of the example show.
\<close>

theorem import_expression_only_in_statement_position:
  "findImportsPerAstFile gat oxcAst =
     visitAll (visitor gat)
       (filter (\<lambda>n.
           field n ''type'' = Str ''ImportDeclaration''
           \<or> field n ''type'' = Str ''ExportNamedDeclaration''
           \<or> field n ''type'' = Str ''ExportAllDeclaration''
           \<or> (field n ''type'' = Str ''CallExpression''
               \<and> optprop (field n ''callee'') ''type'' = Str ''Import'')
           \<or> (field n ''type'' = Str ''ExpressionStatement''
               \<and> (nullish (field n ''expression'')
                    \<or> field (field n ''expression'') ''type'' = Str ''ImportExpression'')))
         (nodes oxcAst)) []"
  unfolding findImportsPerAstFile_def oxcTraverse_def
  by (rule sym, rule visitAll_filter, rule disjI1, rule visitor_skips)

theorem import_expression_only_in_statement_position_witness:
  "findImportsPerAstFile (\<lambda>node. Undefined)
     (Obj [(''type'', Str ''Program''), (''body'', Arr [
        Obj [(''type'', Str ''VariableDeclaration''), (''kind'', Str ''const''),
             (''declarations'', Arr [Obj [(''type'', Str ''VariableDeclarator''),
                (''id'', Obj [(''type'', Str ''Identifier''), (''name'', Str ''m'')]),
                (''init'', Obj [(''type'', Str ''ImportExpression''),
                   (''source'', Obj [(''type'', Str ''Literal''), (''value'', Str ''pkg-b'')])])]])],
        Obj [(''type'', Str ''ExpressionStatement''),
             (''expression'', Obj [(''type'', Str ''AwaitExpression''),
                (''argument'', Obj [(''type'', Str ''ImportExpression''),
                   (''source'', Obj [(''type'', Str ''Literal''), (''value'', Str ''pkg-c'')])])])],
        Obj [(''type'', Str ''ExpressionStatement''),
             (''expression'', Obj [(''type'', Str ''CallExpression''),
                (''callee'', Obj [(''type'', Str ''Identifier''), (''name'', Str ''load'')]),
                (''arguments'', Arr [Obj [(''type'', Str ''ImportExpression''),
                   (''source'', Obj [(''type'', Str ''Literal''), (''value'', Str ''pkg-d'')])]])])],
        Obj [(''type'', Str ''ExpressionStatement''),
             (''expression'', Obj [(''type'', Str ''ImportExpression''),
                (''source'', Obj [(''type'', Str ''Literal''), (''value'', Str ''pkg-e'')])])]])])
   = Inr [\<lparr>importSpecifiers = [Str ''[default]''], source = Str ''pkg-e'',
           assertionType = None\<rparr>]"
  unfolding import_expression_only_in_statement_position
  by code_simp

subsection \<open>Malformed nodes\<close>


text \<open>
  C2, amended. For every tree that contains a malformed declaration node (a recognised
  dynamic-import call whose argument list is empty, or an import declaration with no
  source node), the analysis of the whole file fails with \<^verbatim>\<open>TypeError\<close> and returns no
  entries: the node is not skipped.
\<close>



subsection \<open>Order of the entries\<close>

lemma nodes_Program:
  "nodes (Obj [(''type'', Str ''Program''), (''body'', Arr ds)])
     = Obj [(''type'', Str ''Program''), (''body'', Arr ds)] # concat (map nodes ds)"
  by simp

lemma findImportsPerAstFile_Program:
  "findImportsPerAstFile gat (Obj [(''type'', Str ''Program''), (''body'', Arr ds)])
     = visitAll (visitor gat) (concat (map nodes ds)) []"
  by (simp add: findImportsPerAstFile_def oxcTraverse_def visitor_def)



lemma findImportsPerAstFile_Program_iff:
  "findImportsPerAstFile gat (Obj [(''type'', Str ''Program''), (''body'', Arr ds)]) = Inr es \<longleftrightarrow>
     (\<exists>ess. list_all2 (\<lambda>d r. findImportsPerAstFile gat d = Inr r) ds ess \<and> es = concat ess)"
proof -
  have "findImportsPerAstFile gat (Obj [(''type'', Str ''Program''), (''body'', Arr ds)]) = Inr es \<longleftrightarrow>
     (\<exists>ess. list_all2 (\<lambda>xs r. visitAll (visitor gat) xs [] = Inr r) (map nodes ds) ess \<and> es = concat ess)"
    by (simp only: findImportsPerAstFile_Program visitAll_concat)
  also have "\<dots> \<longleftrightarrow> (\<exists>ess. list_all2 (\<lambda>d r. findImportsPerAstFile gat d = Inr r) ds ess \<and> es = concat ess)"
    by (simp only: list_all2_map1 findImportsPerAstFile_def oxcTraverse_def)
  finally show ?thesis .
qed


text \<open>Results of a function over a list, chosen element by element.\<close>

lemma list_all2_choose:
  "list_all2 (\<lambda>d part. \<exists>r. f d = Inr r \<and> part = g r) ds parts \<Longrightarrow>
     \<exists>ess. list_all2 (\<lambda>d r. f d = Inr r) ds ess \<and> parts = map g ess"
proof (induction ds parts rule: list_all2_induct)
  case Nil
  show ?case by simp
next
  case (Cons d ds part parts)
  then obtain r ess where "f d = Inr r" "part = g r"
    "list_all2 (\<lambda>d r. f d = Inr r) ds ess" "parts = map g ess" by blast
  then have "list_all2 (\<lambda>d r. f d = Inr r) (d # ds) (r # ess) \<and> part # parts = map g (r # ess)"
    by simp
  then show ?case by (rule exI [of _ "r # ess"])
qed

text \<open>
  C8. The entries of a file are in declaration order, for all declaration kinds mixed
  together: the result for a program is the concatenation, in the order of the program's
  body, of the results for its declarations. Nothing is reordered by the walk or by the
  post-processing.
\<close>

theorem entries_follow_declaration_order:
  "analyzeFile gat rewrite (Obj [(''type'', Str ''Program''), (''body'', Arr declarations)]) ctx
     = Inr result \<longleftrightarrow>
   (\<exists>parts. list_all2 (\<lambda>d part. analyzeFile gat rewrite d ctx = Inr part) declarations parts
      \<and> result = concat parts)"
proof -
  define g where "g = (\<lambda>es.
      if \<not> keepInternalSources (analyzerCfg ctx)
      then filter (\<lambda>e. \<not> isRelativeSourcePath (source e))
             (normalizeSourcePaths rewrite es (relativePath ctx)
                (targetProjectPath (analyzerCfg ctx)))
      else normalizeSourcePaths rewrite es (relativePath ctx)
             (targetProjectPath (analyzerCfg ctx)))"
  have g: "analyzeFile gat rewrite ast ctx
              = ebind (findImportsPerAstFile gat ast) (\<lambda>es. Inr (g es))" for ast
    by (simp add: analyzeFile_def Let_def g_def)
  have g_concat: "g (concat ess) = concat (map g ess)" for ess
    by (simp add: g_def normalizeSourcePaths_def map_concat filter_concat comp_def)
  have each: "analyzeFile gat rewrite d ctx = Inr part
      \<longleftrightarrow> (\<exists>r. findImportsPerAstFile gat d = Inr r \<and> part = g r)" for d part
    unfolding g by (cases "findImportsPerAstFile gat d") auto
  show ?thesis
  proof
    assume "analyzeFile gat rewrite
        (Obj [(''type'', Str ''Program''), (''body'', Arr declarations)]) ctx = Inr result"
    then obtain es where
      "findImportsPerAstFile gat (Obj [(''type'', Str ''Program''), (''body'', Arr declarations)])
         = Inr es" and res: "result = g es"
      unfolding each by blast
    then obtain ess where
      ess: "list_all2 (\<lambda>d r. findImportsPerAstFile gat d = Inr r) declarations ess"
      and es: "es = concat ess"
      unfolding findImportsPerAstFile_Program_iff by blast
    have "list_all2 (\<lambda>d part. analyzeFile gat rewrite d ctx = Inr part) declarations (map g ess)"
      unfolding list_all2_map2 each using ess by (rule list_all2_mono) simp
    moreover have "result = concat (map g ess)"
      using res es g_concat by simp
    ultimately show "\<exists>parts.
        list_all2 (\<lambda>d part. analyzeFile gat rewrite d ctx = Inr part) declarations parts
        \<and> result = concat parts"
      by blast
  next
    assume "\<exists>parts.
        list_all2 (\<lambda>d part. analyzeFile gat rewrite d ctx = Inr part) declarations parts
        \<and> result = concat parts"
    then obtain parts where
      parts: "list_all2 (\<lambda>d part. \<exists>r. findImportsPerAstFile gat d = Inr r \<and> part = g r)
                declarations parts"
      and res: "result = concat parts"
      unfolding each by blast
    from list_all2_choose [OF parts] obtain ess where
      ess: "list_all2 (\<lambda>d r. findImportsPerAstFile gat d = Inr r) declarations ess"
      and "parts = map g ess"
      by blast
    with res have "result = g (concat ess)"
      by (simp add: g_concat)
    moreover from ess have
      "findImportsPerAstFile gat (Obj [(''type'', Str ''Program''), (''body'', Arr declarations)])
         = Inr (concat ess)"
      unfolding findImportsPerAstFile_Program_iff by blast
    ultimately show "analyzeFile gat rewrite
        (Obj [(''type'', Str ''Program''), (''body'', Arr declarations)]) ctx = Inr result"
      unfolding each by blast
  qed
qed

theorem entries_follow_declaration_order_witness:
  "analyzeFile (\<lambda>node. Undefined) (\<lambda>relPath rootPath src. src)
     (Obj [(''type'', Str ''Program''), (''body'', Arr [
        Obj [(''type'', Str ''ImportDeclaration''),
             (''specifiers'', Arr [Obj [(''type'', Str ''ImportDefaultSpecifier''),
                (''local'', Obj [(''type'', Str ''Identifier''), (''name'', Str ''a'')])]]),
             (''source'', Obj [(''type'', Str ''Literal''), (''value'', Str ''pkg-a'')])],
        Obj [(''type'', Str ''ExpressionStatement''),
             (''expression'', Obj [(''type'', Str ''ImportExpression''),
                (''source'', Obj [(''type'', Str ''Literal''), (''value'', Str ''pkg-b'')])])],
        Obj [(''type'', Str ''ExportAllDeclaration''),
             (''exported'', Null),
             (''source'', Obj [(''type'', Str ''Literal''), (''value'', Str ''pkg-c'')])],
        Obj [(''type'', Str ''ExportNamedDeclaration''),
             (''specifiers'', Arr [Obj [(''type'', Str ''ExportSpecifier''),
                (''local'', Obj [(''type'', Str ''Identifier''), (''name'', Str ''x'')]),
                (''exported'', Obj [(''type'', Str ''Identifier''), (''name'', Str ''x'')])]]),
             (''source'', Obj [(''type'', Str ''Literal''), (''value'', Str ''pkg-d'')])]])])
     \<lparr>relativePath = ''./src/index.js'',
      analyzerCfg = \<lparr>targetProjectPath = None, keepInternalSources = False\<rparr>\<rparr>
   = Inr [\<lparr>importSpecifiers = [Str ''[default]''], source = Str ''pkg-a'', assertionType = None\<rparr>,
          \<lparr>importSpecifiers = [Str ''[default]''], source = Str ''pkg-b'', assertionType = None\<rparr>,
          \<lparr>importSpecifiers = [Str ''[*]''], source = Str ''pkg-c'', assertionType = None\<rparr>,
          \<lparr>importSpecifiers = [Str ''x''], source = Str ''pkg-d'', assertionType = None\<rparr>]"
proof -
  let ?ctx = "\<lparr>relativePath = ''./src/index.js'',
      analyzerCfg = \<lparr>targetProjectPath = None, keepInternalSources = False\<rparr>\<rparr>"
  let ?d1 = "Obj [(''type'', Str ''ImportDeclaration''),
             (''specifiers'', Arr [Obj [(''type'', Str ''ImportDefaultSpecifier''),
                (''local'', Obj [(''type'', Str ''Identifier''), (''name'', Str ''a'')])]]),
             (''source'', Obj [(''type'', Str ''Literal''), (''value'', Str ''pkg-a'')])]"
  let ?d2 = "Obj [(''type'', Str ''ExpressionStatement''),
             (''expression'', Obj [(''type'', Str ''ImportExpression''),
                (''source'', Obj [(''type'', Str ''Literal''), (''value'', Str ''pkg-b'')])])]"
  let ?d3 = "Obj [(''type'', Str ''ExportAllDeclaration''),
             (''exported'', Null),
             (''source'', Obj [(''type'', Str ''Literal''), (''value'', Str ''pkg-c'')])]"
  let ?d4 = "Obj [(''type'', Str ''ExportNamedDeclaration''),
             (''specifiers'', Arr [Obj [(''type'', Str ''ExportSpecifier''),
                (''local'', Obj [(''type'', Str ''Identifier''), (''name'', Str ''x'')]),
                (''exported'', Obj [(''type'', Str ''Identifier''), (''name'', Str ''x'')])]]),
             (''source'', Obj [(''type'', Str ''Literal''), (''value'', Str ''pkg-d'')])]"
  have 1: "analyzeFile (\<lambda>node. Undefined) (\<lambda>relPath rootPath src. src) ?d1 ?ctx
     = Inr [\<lparr>importSpecifiers = [Str ''[default]''], source = Str ''pkg-a'', assertionType = None\<rparr>]"
    by code_simp
  have 2: "analyzeFile (\<lambda>node. Undefined) (\<lambda>relPath rootPath src. src) ?d2 ?ctx
     = Inr [\<lparr>importSpecifiers = [Str ''[default]''], source = Str ''pkg-b'', assertionType = None\<rparr>]"
    by code_simp
  have 3: "analyzeFile (\<lambda>node. Undefined) (\<lambda>relPath rootPath src. src) ?d3 ?ctx
     = Inr [\<lparr>importSpecifiers = [Str ''[*]''], source = Str ''pkg-c'', assertionType = None\<rparr>]"
    by code_simp
  have 4: "analyzeFile (\<lambda>node. Undefined) (\<lambda>relPath rootPath src. src) ?d4 ?ctx
     = Inr [\<lparr>importSpecifiers = [Str ''x''], source = Str ''pkg-d'', assertionType = None\<rparr>]"
    by code_simp
  show ?thesis
    unfolding entries_follow_declaration_order
    by (rule exI [of _ "[[\<lparr>importSpecifiers = [Str ''[default]''], source = Str ''pkg-a'', assertionType = None\<rparr>],
          [\<lparr>importSpecifiers = [Str ''[default]''], source = Str ''pkg-b'', assertionType = None\<rparr>],
          [\<lparr>importSpecifiers = [Str ''[*]''], source = Str ''pkg-c'', assertionType = None\<rparr>],
          [\<lparr>importSpecifiers = [Str ''x''], source = Str ''pkg-d'', assertionType = None\<rparr>]]"])
       (simp add: 1 2 3 4)
qed

subsection \<open>Internal sources\<close>

text \<open>
  C5. When the walk returns the entries \<open>raw\<close>, the analysis returns a result. With
  \<^verbatim>\<open>keepInternalSources\<close> false (the default) no entry of the result has a relative
  (internal) source; with \<^verbatim>\<open>keepInternalSources\<close> true the result is the normalized
  sequence itself, one entry for each entry produced: nothing is filtered.
\<close>

theorem keepInternalSources_filter:
  assumes "findImportsPerAstFile gat oxcAst = Inr raw"
  shows "\<exists>result. analyzeFile gat rewrite oxcAst ctx = Inr result
           \<and> (if keepInternalSources (analyzerCfg ctx)
              then length result = length raw
                   \<and> result = normalizeSourcePaths rewrite raw (relativePath ctx)
                                (targetProjectPath (analyzerCfg ctx))
              else list_all (\<lambda>e. \<not> isRelativeSourcePath (source e)) result)"
  using assms
  by (simp add: analyzeFile_def normalizeSourcePaths_def Let_def list_all_iff)

theorem keepInternalSources_filter_witness:
  "analyzeFile (\<lambda>node. Undefined) (\<lambda>relPath rootPath src. src)
     (Obj [(''type'', Str ''Program''), (''body'', Arr [
        Obj [(''type'', Str ''ImportDeclaration''),
             (''specifiers'', Arr []),
             (''source'', Obj [(''type'', Str ''Literal''), (''value'', Str ''./a.js'')])],
        Obj [(''type'', Str ''ImportDeclaration''),
             (''specifiers'', Arr []),
             (''source'', Obj [(''type'', Str ''Literal''), (''value'', Str ''pkg'')])]])])
     \<lparr>relativePath = ''./src/index.js'',
      analyzerCfg = \<lparr>targetProjectPath = None, keepInternalSources = True\<rparr>\<rparr>
   = Inr [\<lparr>importSpecifiers = [Str ''[file]''], source = Str ''./a.js'', assertionType = None\<rparr>,
          \<lparr>importSpecifiers = [Str ''[file]''], source = Str ''pkg'', assertionType = None\<rparr>]
   \<and> analyzeFile (\<lambda>node. Undefined) (\<lambda>relPath rootPath src. src)
     (Obj [(''type'', Str ''Program''), (''body'', Arr [
        Obj [(''type'', Str ''ImportDeclaration''),
             (''specifiers'', Arr []),
             (''source'', Obj [(''type'', Str ''Literal''), (''value'', Str ''./a.js'')])],
        Obj [(''type'', Str ''ImportDeclaration''),
             (''specifiers'', Arr []),
             (''source'', Obj [(''type'', Str ''Literal''), (''value'', Str ''pkg'')])]])])
     \<lparr>relativePath = ''./src/index.js'',
      analyzerCfg = \<lparr>targetProjectPath = None, keepInternalSources = False\<rparr>\<rparr>
   = Inr [\<lparr>importSpecifiers = [Str ''[file]''], source = Str ''pkg'', assertionType = None\<rparr>]"
proof -
  have raw: "findImportsPerAstFile (\<lambda>node. Undefined)
     (Obj [(''type'', Str ''Program''), (''body'', Arr [
        Obj [(''type'', Str ''ImportDeclaration''),
             (''specifiers'', Arr []),
             (''source'', Obj [(''type'', Str ''Literal''), (''value'', Str ''./a.js'')])],
        Obj [(''type'', Str ''ImportDeclaration''),
             (''specifiers'', Arr []),
             (''source'', Obj [(''type'', Str ''Literal''), (''value'', Str ''pkg'')])]])])
   = Inr [\<lparr>importSpecifiers = [Str ''[file]''], source = Str ''./a.js'', assertionType = None\<rparr>,
          \<lparr>importSpecifiers = [Str ''[file]''], source = Str ''pkg'', assertionType = None\<rparr>]"
    by code_simp
  have filtered: "analyzeFile (\<lambda>node. Undefined) (\<lambda>relPath rootPath src. src)
     (Obj [(''type'', Str ''Program''), (''body'', Arr [
        Obj [(''type'', Str ''ImportDeclaration''),
             (''specifiers'', Arr []),
             (''source'', Obj [(''type'', Str ''Literal''), (''value'', Str ''./a.js'')])],
        Obj [(''type'', Str ''ImportDeclaration''),
             (''specifiers'', Arr []),
             (''source'', Obj [(''type'', Str ''Literal''), (''value'', Str ''pkg'')])]])])
     \<lparr>relativePath = ''./src/index.js'',
      analyzerCfg = \<lparr>targetProjectPath = None, keepInternalSources = False\<rparr>\<rparr>
   = Inr [\<lparr>importSpecifiers = [Str ''[file]''], source = Str ''pkg'', assertionType = None\<rparr>]"
    by code_simp
  from keepInternalSources_filter [OF raw, of "\<lambda>relPath rootPath src. src"
      "\<lparr>relativePath = ''./src/index.js'',
        analyzerCfg = \<lparr>targetProjectPath = None, keepInternalSources = True\<rparr>\<rparr>"]
    filtered
  show ?thesis
    by (simp add: normalizeSourcePaths_def)
qed

end
